theory Spec2Isabelle
  imports Main
begin

section \<open>Python strings\<close>

text \<open>
  A Python \<open>str\<close> is a sequence of code points. It is modelled by \<^typ>\<open>string\<close>, one
  \<^typ>\<open>char\<close> per code point, so the model covers the strings whose code points are
  below 256 (ASCII and Latin-1); \<open>length\<close> is Python's \<open>len\<close>. The library functions
  below are the ones \<open>url_validator.py\<close> and \<open>qr_generator.py\<close> reach, written after
  CPython 3.12 (\<open>urllib/parse.py\<close>, \<open>ipaddress.py\<close>).
\<close>

definition str_find :: "char \<Rightarrow> string \<Rightarrow> nat option" where
  \<comment> \<open>\<open>s.find(c)\<close>; \<open>None\<close> stands for -1\<close>
  "str_find c s = (if c \<in> set s then Some (length (takeWhile (\<lambda>x. x \<noteq> c) s)) else None)"

definition str_partition :: "char \<Rightarrow> string \<Rightarrow> string \<times> bool \<times> string" where
  \<comment> \<open>\<open>s.partition(c)\<close>; the middle component tells whether the separator was found\<close>
  "str_partition c s =
     (takeWhile (\<lambda>x. x \<noteq> c) s, c \<in> set s, drop 1 (dropWhile (\<lambda>x. x \<noteq> c) s))"

definition str_rpartition :: "char \<Rightarrow> string \<Rightarrow> string \<times> bool \<times> string" where
  \<comment> \<open>\<open>s.rpartition(c)\<close>: split at the last occurrence; all of \<open>s\<close> is the tail when there is none\<close>
  "str_rpartition c s =
     (if c \<in> set s
      then (rev (drop 1 (dropWhile (\<lambda>x. x \<noteq> c) (rev s))), True,
            rev (takeWhile (\<lambda>x. x \<noteq> c) (rev s)))
      else ([], False, s))"

fun str_split :: "char \<Rightarrow> string \<Rightarrow> string list" where
  \<comment> \<open>\<open>s.split(c)\<close>\<close>
  "str_split c [] = [[]]"
| "str_split c (x # xs) =
     (if x = c then [] # str_split c xs
      else (case str_split c xs of
              [] \<Rightarrow> [[x]]
            | w # ws \<Rightarrow> (x # w) # ws))"

definition str_lstrip :: "string \<Rightarrow> string \<Rightarrow> string" where
  \<comment> \<open>\<open>s.lstrip(chars)\<close>\<close>
  "str_lstrip chars s = dropWhile (\<lambda>x. x \<in> set chars) s"

definition str_remove :: "char \<Rightarrow> string \<Rightarrow> string" where
  \<comment> \<open>\<open>s.replace(c, "")\<close>\<close>
  "str_remove c s = filter (\<lambda>x. x \<noteq> c) s"

definition ascii_uppercase :: string where
  "ascii_uppercase = ''ABCDEFGHIJKLMNOPQRSTUVWXYZ''"

definition ascii_lowercase :: string where
  "ascii_lowercase = ''abcdefghijklmnopqrstuvwxyz''"

definition digits :: string where
  "digits = ''0123456789''"

definition latin1_uppercase :: string where
  \<comment> \<open>U+00C0-U+00DE without the multiplication sign U+00D7\<close>
  "latin1_uppercase =
     [CHR 0xC0, CHR 0xC1, CHR 0xC2, CHR 0xC3, CHR 0xC4, CHR 0xC5, CHR 0xC6, CHR 0xC7,
      CHR 0xC8, CHR 0xC9, CHR 0xCA, CHR 0xCB, CHR 0xCC, CHR 0xCD, CHR 0xCE, CHR 0xCF,
      CHR 0xD0, CHR 0xD1, CHR 0xD2, CHR 0xD3, CHR 0xD4, CHR 0xD5, CHR 0xD6,
      CHR 0xD8, CHR 0xD9, CHR 0xDA, CHR 0xDB, CHR 0xDC, CHR 0xDD, CHR 0xDE]"

definition latin1_lowercase :: string where
  \<comment> \<open>their lowercase forms, U+00E0-U+00FE without the division sign U+00F7\<close>
  "latin1_lowercase =
     [CHR 0xE0, CHR 0xE1, CHR 0xE2, CHR 0xE3, CHR 0xE4, CHR 0xE5, CHR 0xE6, CHR 0xE7,
      CHR 0xE8, CHR 0xE9, CHR 0xEA, CHR 0xEB, CHR 0xEC, CHR 0xED, CHR 0xEE, CHR 0xEF,
      CHR 0xF0, CHR 0xF1, CHR 0xF2, CHR 0xF3, CHR 0xF4, CHR 0xF5, CHR 0xF6,
      CHR 0xF8, CHR 0xF9, CHR 0xFA, CHR 0xFB, CHR 0xFC, CHR 0xFD, CHR 0xFE]"

definition char_lower :: "char \<Rightarrow> char" where
  \<comment> \<open>\<open>c.lower()\<close> on code points below 256: the letters A-Z and U+00C0-U+00DE have a
      lowercase form; every other code point is its own lowercase\<close>
  "char_lower c =
     (case map_of (zip (ascii_uppercase @ latin1_uppercase)
                       (ascii_lowercase @ latin1_lowercase)) c of
        Some l \<Rightarrow> l
      | None \<Rightarrow> c)"

definition str_lower :: "string \<Rightarrow> string" where
  "str_lower s = map char_lower s"

definition char_upper :: "char \<Rightarrow> char" where
  \<comment> \<open>\<open>c.upper()\<close> on ASCII. The uppercase forms of U+00B5, U+00DF and U+00FF are not
      code points below 256, and no non-ASCII character has an uppercase form that occurs
      in \<open>PNG\<close> or \<open>SVG\<close>, the only strings the result is compared with; a non-ASCII
      character is left as it is\<close>
  "char_upper c =
     (case map_of (zip ascii_lowercase ascii_uppercase) c of
        Some u \<Rightarrow> u
      | None \<Rightarrow> c)"

definition str_upper :: "string \<Rightarrow> string" where
  "str_upper s = map char_upper s"

definition is_ascii_digits :: "string \<Rightarrow> bool" where
  \<comment> \<open>\<open>s.isascii() and s.isdigit()\<close>\<close>
  "is_ascii_digits s = (s \<noteq> [] \<and> list_all (\<lambda>c. c \<in> set digits) s)"

definition digit_val :: "char \<Rightarrow> nat" where
  \<comment> \<open>the value of a hexadecimal digit\<close>
  "digit_val c =
     (let n = (of_char c :: nat)
      in if 48 \<le> n \<and> n \<le> 57 then n - 48
         else if 97 \<le> n \<and> n \<le> 102 then n - 87
         else n - 55)"

definition int_of_str :: "nat \<Rightarrow> string \<Rightarrow> nat" where
  \<comment> \<open>\<open>int(s, base)\<close> on a non-empty string of digits of that base\<close>
  "int_of_str base s = foldl (\<lambda>a c. a * base + digit_val c) 0 s"

definition digit_char :: "nat \<Rightarrow> char" where
  "digit_char d = ''0123456789abcdef'' ! d"

function str_of_nat_aux :: "bool \<Rightarrow> nat \<Rightarrow> nat \<Rightarrow> string" where
  \<comment> \<open>the digits of \<open>n\<close>, most significant first; the flag says that \<open>n\<close> is a single digit\<close>
  "str_of_nat_aux True base n = [digit_char n]"
| "str_of_nat_aux False base n =
     str_of_nat_aux (base < 2 \<or> n div base < base) base (n div base) @ [digit_char (n mod base)]"
  by pat_completeness auto
termination
proof (relation "measure (\<lambda>(single, base, n). if single then 0 else Suc n)", goal_cases)
  case 1
  show ?case by simp
next
  case (2 base n)
  have "n div base < n" if "\<not> base < 2" and "\<not> n div base < base"
  proof (cases "n = 0")
    case True
    with that show ?thesis by simp
  next
    case False
    with that show ?thesis by (intro div_less_dividend) auto
  qed
  then show ?case by auto
qed

definition str_of_nat :: "nat \<Rightarrow> nat \<Rightarrow> string" where
  \<comment> \<open>\<open>str(n)\<close> for base 10, \<open>'%x' % n\<close> for base 16\<close>
  "str_of_nat base n = str_of_nat_aux (base < 2 \<or> n < base) base n"

section \<open>ipaddress\<close>

datatype ip_address = IPv4Address nat | IPv6Address nat

fun int_from_parts :: "nat \<Rightarrow> nat \<Rightarrow> nat option list \<Rightarrow> nat option" where
  \<comment> \<open>the big-endian value of a list of parsed parts, none of which may have failed\<close>
  "int_from_parts radix acc [] = Some acc"
| "int_from_parts radix acc (None # ps) = None"
| "int_from_parts radix acc (Some v # ps) = int_from_parts radix (acc * radix + v) ps"

definition parse_octet :: "string \<Rightarrow> nat option" where
  \<comment> \<open>\<open>_BaseV4._parse_octet\<close>; \<open>None\<close> is its ValueError\<close>
  "parse_octet octet_str =
     (if octet_str = [] then None
      else if \<not> is_ascii_digits octet_str then None
      else if length octet_str > 3 then None
      else if octet_str \<noteq> ''0'' \<and> hd octet_str = CHR ''0'' then None
      else if int_of_str 10 octet_str > 255 then None
      else Some (int_of_str 10 octet_str))"

definition ipv4_int_from_string :: "string \<Rightarrow> nat option" where
  \<comment> \<open>\<open>_BaseV4._ip_int_from_string\<close>; \<open>None\<close> is AddressValueError\<close>
  "ipv4_int_from_string ip_str =
     (if ip_str = [] then None
      else let octets = str_split CHR ''.'' ip_str
           in if length octets \<noteq> 4 then None
              else int_from_parts 256 0 (map parse_octet octets))"

definition ipv4_address :: "string \<Rightarrow> nat option" where
  \<comment> \<open>\<open>IPv4Address(address)\<close> for a string\<close>
  "ipv4_address addr_str =
     (if CHR ''/'' \<in> set addr_str then None else ipv4_int_from_string addr_str)"

definition hex_digits :: string where
  "hex_digits = ''0123456789ABCDEFabcdef''"

definition parse_hextet :: "string \<Rightarrow> nat option" where
  \<comment> \<open>\<open>_BaseV6._parse_hextet\<close>; \<open>int('', 16)\<close> raises ValueError as well\<close>
  "parse_hextet hextet_str =
     (if \<not> list_all (\<lambda>c. c \<in> set hex_digits) hextet_str then None
      else if length hextet_str > 4 then None
      else if hextet_str = [] then None
      else Some (int_of_str 16 hextet_str))"

definition ipv6_hextets :: "string list \<Rightarrow> nat option" where
  \<comment> \<open>the second half of \<open>_BaseV6._ip_int_from_string\<close>: find the \<open>::\<close>, count the
      parts before and after it, and read the hextets\<close>
  "ipv6_hextets parts =
     (let n = length parts;
          skips = filter (\<lambda>i. parts ! i = []) [1 ..< n - 1]
      in case skips of
           [] \<Rightarrow>
             if n \<noteq> 8 then None
             else if hd parts = [] then None
             else if last parts = [] then None
             else int_from_parts 65536 0 (map parse_hextet parts)
         | [skip_index] \<Rightarrow>
             let hi0 = skip_index;
                 lo0 = n - skip_index - 1;
                 parts_hi = (if hd parts = [] then hi0 - 1 else hi0);
                 parts_lo = (if last parts = [] then lo0 - 1 else lo0)
             in if hd parts = [] \<and> parts_hi \<noteq> 0 then None
                else if last parts = [] \<and> parts_lo \<noteq> 0 then None
                else if parts_hi + parts_lo > 7 then None
                else (case int_from_parts 65536 0 (map parse_hextet (take parts_hi parts)) of
                        None \<Rightarrow> None
                      | Some ip_int \<Rightarrow>
                          int_from_parts 65536
                            (ip_int * 2 ^ (16 * (8 - (parts_hi + parts_lo))))
                            (map parse_hextet (drop (n - parts_lo) parts)))
         | _ \<Rightarrow> None)"

definition ipv6_int_from_string :: "string \<Rightarrow> nat option" where
  \<comment> \<open>\<open>_BaseV6._ip_int_from_string\<close>\<close>
  "ipv6_int_from_string ip_str =
     (if ip_str = [] then None
      else let parts = str_split CHR '':'' ip_str
           in if length parts < 3 then None
              else if CHR ''.'' \<in> set (last parts)
              then (case ipv4_address (last parts) of
                      None \<Rightarrow> None
                    | Some ipv4_int \<Rightarrow>
                        let parts' = butlast parts @
                              [str_of_nat 16 (ipv4_int div 65536 mod 65536),
                               str_of_nat 16 (ipv4_int mod 65536)]
                        in if length parts' > 9 then None else ipv6_hextets parts')
              else if length parts > 9 then None
              else ipv6_hextets parts)"

definition ipv6_address :: "string \<Rightarrow> nat option" where
  \<comment> \<open>\<open>IPv6Address(address)\<close> for a string, with \<open>_split_scope_id\<close>\<close>
  "ipv6_address addr_str =
     (if CHR ''/'' \<in> set addr_str then None
      else case str_partition CHR ''%'' addr_str of
             (addr, sep, scope_id) \<Rightarrow>
               if sep \<and> (scope_id = [] \<or> CHR ''%'' \<in> set scope_id) then None
               else ipv6_int_from_string addr)"

definition ip_address :: "string \<Rightarrow> ip_address option" where
  \<comment> \<open>\<open>ipaddress.ip_address(address)\<close>; \<open>None\<close> is its ValueError\<close>
  "ip_address address =
     (case ipv4_address address of
        Some ip \<Rightarrow> Some (IPv4Address ip)
      | None \<Rightarrow>
          (case ipv6_address address of
             Some ip \<Rightarrow> Some (IPv6Address ip)
           | None \<Rightarrow> None))"

definition in_network :: "nat \<Rightarrow> nat \<Rightarrow> nat option \<times> nat \<Rightarrow> bool" where
  \<comment> \<open>\<open>_BaseNetwork.__contains__\<close>: the address under the netmask is the network address\<close>
  "in_network bits ip net =
     (case net of
        (None, prefix) \<Rightarrow> False
      | (Some a, prefix) \<Rightarrow> ip - ip mod 2 ^ (bits - prefix) = a)"

definition IPv4Network :: "string \<Rightarrow> nat \<Rightarrow> nat option \<times> nat" where
  "IPv4Network a prefix = (ipv4_address a, prefix)"

definition IPv6Network :: "string \<Rightarrow> nat \<Rightarrow> nat option \<times> nat" where
  "IPv6Network a prefix = (ipv6_address a, prefix)"

definition ipv4_private_networks :: "(nat option \<times> nat) list" where
  "ipv4_private_networks =
     [IPv4Network ''0.0.0.0'' 8, IPv4Network ''10.0.0.0'' 8, IPv4Network ''127.0.0.0'' 8,
      IPv4Network ''169.254.0.0'' 16, IPv4Network ''172.16.0.0'' 12,
      IPv4Network ''192.0.0.0'' 24, IPv4Network ''192.0.0.170'' 31,
      IPv4Network ''192.0.2.0'' 24, IPv4Network ''192.168.0.0'' 16,
      IPv4Network ''198.18.0.0'' 15, IPv4Network ''198.51.100.0'' 24,
      IPv4Network ''203.0.113.0'' 24, IPv4Network ''240.0.0.0'' 4,
      IPv4Network ''255.255.255.255'' 32]"

definition ipv4_private_networks_exceptions :: "(nat option \<times> nat) list" where
  "ipv4_private_networks_exceptions =
     [IPv4Network ''192.0.0.9'' 32, IPv4Network ''192.0.0.10'' 32]"

definition ipv6_private_networks :: "(nat option \<times> nat) list" where
  "ipv6_private_networks =
     [IPv6Network ''::1'' 128, IPv6Network ''::'' 128, IPv6Network ''::ffff:0:0'' 96,
      IPv6Network ''64:ff9b:1::'' 48, IPv6Network ''100::'' 64, IPv6Network ''2001::'' 23,
      IPv6Network ''2001:db8::'' 32, IPv6Network ''2002::'' 16, IPv6Network ''fc00::'' 7,
      IPv6Network ''fe80::'' 10]"

definition ipv6_private_networks_exceptions :: "(nat option \<times> nat) list" where
  "ipv6_private_networks_exceptions =
     [IPv6Network ''2001:1::1'' 128, IPv6Network ''2001:1::2'' 128,
      IPv6Network ''2001:3::'' 32, IPv6Network ''2001:4:112::'' 48,
      IPv6Network ''2001:20::'' 28, IPv6Network ''2001:30::'' 28]"

definition ipv4_is_private :: "nat \<Rightarrow> bool" where
  "ipv4_is_private ip =
     (list_ex (in_network 32 ip) ipv4_private_networks \<and>
      list_all (\<lambda>net. \<not> in_network 32 ip net) ipv4_private_networks_exceptions)"

fun is_private :: "ip_address \<Rightarrow> bool" where
  "is_private (IPv4Address ip) = ipv4_is_private ip"
| "is_private (IPv6Address ip) =
     (if ip div 2 ^ 32 = 65535 then ipv4_is_private (ip mod 2 ^ 32)
      else list_ex (in_network 128 ip) ipv6_private_networks \<and>
           list_all (\<lambda>net. \<not> in_network 128 ip net) ipv6_private_networks_exceptions)"

fun is_loopback :: "ip_address \<Rightarrow> bool" where
  "is_loopback (IPv4Address ip) = in_network 32 ip (IPv4Network ''127.0.0.0'' 8)"
| "is_loopback (IPv6Address ip) = (ip = 1)"

section \<open>urllib.parse\<close>

datatype value_error =
    Invalid_IPv6_URL
  | IPvFuture_invalid
  | Not_an_IP_address
  | IPv4_in_brackets
  | Port_not_integer
  | Port_out_of_range

text \<open>
  The constructors of \<^typ>\<open>value_error\<close> are the plain \<open>ValueError\<close>s the library raises:
  \<open>"Invalid IPv6 URL"\<close>, \<open>"IPvFuture address is invalid"\<close>, the error of
  \<open>ipaddress.ip_address\<close>, \<open>"An IPv4 address cannot be in brackets"\<close>,
  \<open>"Port could not be cast to integer value"\<close> and \<open>"Port out of range 0-65535"\<close>.
\<close>

record parse_result =
  scheme :: string
  netloc :: string
  path :: string
  params :: string
  query :: string
  fragment :: string

definition uses_netloc :: "string list" where
  "uses_netloc =
     ['''', ''ftp'', ''http'', ''gopher'', ''nntp'', ''telnet'',
      ''imap'', ''wais'', ''file'', ''mms'', ''https'', ''shttp'',
      ''snews'', ''prospero'', ''rtsp'', ''rtsps'', ''rtspu'', ''rsync'',
      ''svn'', ''svn+ssh'', ''sftp'', ''nfs'', ''git'', ''git+ssh'',
      ''ws'', ''wss'', ''itms-services'']"

definition uses_params :: "string list" where
  "uses_params =
     ['''', ''ftp'', ''hdl'', ''prospero'', ''http'', ''imap'',
      ''https'', ''shttp'', ''rtsp'', ''rtsps'', ''rtspu'', ''sip'',
      ''sips'', ''mms'', ''sftp'', ''tel'']"

definition scheme_chars :: string where
  "scheme_chars = ascii_lowercase @ ascii_uppercase @ digits @ ''+-.''"

definition WHATWG_C0_CONTROL_OR_SPACE :: string where
  "WHATWG_C0_CONTROL_OR_SPACE =
     [CHR 0x00, CHR 0x01, CHR 0x02, CHR 0x03, CHR 0x04, CHR 0x05, CHR 0x06, CHR 0x07,
      CHR 0x08, CHR 0x09, CHR 0x0A, CHR 0x0B, CHR 0x0C, CHR 0x0D, CHR 0x0E, CHR 0x0F,
      CHR 0x10, CHR 0x11, CHR 0x12, CHR 0x13, CHR 0x14, CHR 0x15, CHR 0x16, CHR 0x17,
      CHR 0x18, CHR 0x19, CHR 0x1A, CHR 0x1B, CHR 0x1C, CHR 0x1D, CHR 0x1E, CHR 0x1F,
      CHR 0x20]"

definition UNSAFE_URL_BYTES_TO_REMOVE :: string where
  \<comment> \<open>tab, carriage return, line feed\<close>
  "UNSAFE_URL_BYTES_TO_REMOVE = [CHR 0x09, CHR 0x0D, CHR 0x0A]"

definition hostinfo :: "string \<Rightarrow> string \<times> string option" where
  \<comment> \<open>\<open>_NetlocResultMixinStr._hostinfo\<close>, on the netloc\<close>
  "hostinfo nl =
     (case str_rpartition CHR ''@'' nl of
        (_, _, hostinfo) \<Rightarrow>
          (case str_partition CHR ''['' hostinfo of
             (_, have_open_br, bracketed) \<Rightarrow>
               let (hostname, port) =
                     (if have_open_br
                      then (case str_partition CHR '']'' bracketed of
                              (hostname, _, port) \<Rightarrow>
                                (case str_partition CHR '':'' port of
                                   (_, _, port) \<Rightarrow> (hostname, port)))
                      else (case str_partition CHR '':'' hostinfo of
                              (hostname, _, port) \<Rightarrow> (hostname, port)))
               in (hostname, if port = [] then None else Some port)))"

definition hostname :: "parse_result \<Rightarrow> string option" where
  \<comment> \<open>the \<open>hostname\<close> property: lowercased, except for the zone after a \<open>%\<close>\<close>
  "hostname r =
     (let hostname = fst (hostinfo (netloc r))
      in if hostname = [] then None
         else (case str_partition CHR ''%'' hostname of
                 (hostname, percent, zone) \<Rightarrow>
                   Some (str_lower hostname @ (if percent then ''%'' else []) @ zone)))"

definition port :: "parse_result \<Rightarrow> value_error + nat option" where
  \<comment> \<open>the \<open>port\<close> property, which raises ValueError on a port that is no number in range\<close>
  "port r =
     (case snd (hostinfo (netloc r)) of
        None \<Rightarrow> Inr None
      | Some port \<Rightarrow>
          if is_ascii_digits port
          then (if int_of_str 10 port \<le> 65535 then Inr (Some (int_of_str 10 port))
                else Inl Port_out_of_range)
          else Inl Port_not_integer)"

definition str_rfind :: "char \<Rightarrow> string \<Rightarrow> nat" where
  \<comment> \<open>\<open>s.rfind(c)\<close> when \<open>c\<close> occurs in \<open>s\<close>\<close>
  "str_rfind c s = length s - 1 - length (takeWhile (\<lambda>x. x \<noteq> c) (rev s))"

definition splitparams :: "string \<Rightarrow> string \<times> string" where
  \<comment> \<open>\<open>_splitparams\<close>: the parameters of the last path segment\<close>
  "splitparams url =
     (if CHR ''/'' \<in> set url
      then (let j = str_rfind CHR ''/'' url
            in case str_find CHR '';'' (drop j url) of
                 None \<Rightarrow> (url, [])
               | Some k \<Rightarrow> (take (j + k) url, drop (j + k + 1) url))
      else (case str_find CHR '';'' url of
              None \<Rightarrow> (butlast url, url)
            | Some i \<Rightarrow> (take i url, drop (i + 1) url)))"

definition splitnetloc :: "string \<Rightarrow> nat \<Rightarrow> string \<times> string" where
  \<comment> \<open>\<open>_splitnetloc\<close>: the text from \<open>start\<close> up to the first of \<open>/\<close>, \<open>?\<close>, \<open>#\<close>, and the rest\<close>
  "splitnetloc url start =
     (takeWhile (\<lambda>c. c \<notin> set ''/?#'') (drop start url),
      dropWhile (\<lambda>c. c \<notin> set ''/?#'') (drop start url))"

definition ipvfuture_match :: "string \<Rightarrow> bool" where
  \<comment> \<open>\<open>re.match\<close> of \<open>\Av[a-fA-F0-9]+\..+\Z\<close>: a \<open>v\<close>, hexadecimal digits, a dot,
      and at least one more character, none of them a line feed\<close>
  "ipvfuture_match h =
     (case h of
        [] \<Rightarrow> False
      | c # r \<Rightarrow>
          c = CHR ''v'' \<and>
          takeWhile (\<lambda>x. x \<in> set hex_digits) r \<noteq> [] \<and>
          take 1 (dropWhile (\<lambda>x. x \<in> set hex_digits) r) = ''.'' \<and>
          drop 1 (dropWhile (\<lambda>x. x \<in> set hex_digits) r) \<noteq> [] \<and>
          CHR 0x0A \<notin> set (drop 1 (dropWhile (\<lambda>x. x \<in> set hex_digits) r)))"

definition check_bracketed_host :: "string \<Rightarrow> value_error option" where
  \<comment> \<open>\<open>_check_bracketed_host\<close>; \<open>None\<close> when it returns without raising\<close>
  "check_bracketed_host h =
     (if take 1 h = ''v''
      then (if ipvfuture_match h then None else Some IPvFuture_invalid)
      else (case ip_address h of
              None \<Rightarrow> Some Not_an_IP_address
            | Some (IPv4Address ip) \<Rightarrow> Some IPv4_in_brackets
            | Some (IPv6Address ip) \<Rightarrow> None))"

definition check_bracketed_netloc :: "string \<Rightarrow> value_error option" where
  \<comment> \<open>\<open>_check_bracketed_netloc\<close>: nothing may stand before the bracket or between the
      closing bracket and the colon of the port; when the brackets are in the user
      information, the host name before the colon is checked as a bracketed host\<close>
  "check_bracketed_netloc nl =
     (case str_rpartition CHR ''@'' nl of
        (_, _, hostname_and_port) \<Rightarrow>
          (case str_partition CHR ''['' hostname_and_port of
             (before_bracket, have_open_br, bracketed) \<Rightarrow>
               if have_open_br
               then (if before_bracket \<noteq> [] then Some Invalid_IPv6_URL
                     else (case str_partition CHR '']'' bracketed of
                             (host, _, rest) \<Rightarrow>
                               if rest \<noteq> [] \<and> take 1 rest \<noteq> '':''
                               then Some Invalid_IPv6_URL
                               else check_bracketed_host host))
               else (case str_partition CHR '':'' hostname_and_port of
                       (host, _, rest) \<Rightarrow> check_bracketed_host host)))"

definition check_brackets :: "string \<Rightarrow> value_error option" where
  \<comment> \<open>the two bracket checks \<open>urlsplit\<close> makes on the netloc\<close>
  "check_brackets nl =
     (if (CHR ''['' \<in> set nl \<and> CHR '']'' \<notin> set nl) \<or>
         (CHR '']'' \<in> set nl \<and> CHR ''['' \<notin> set nl)
      then Some Invalid_IPv6_URL
      else if CHR ''['' \<in> set nl \<and> CHR '']'' \<in> set nl
      then check_bracketed_netloc nl
      else None)"

definition split_scheme :: "string \<Rightarrow> string \<times> string" where
  \<comment> \<open>the scheme \<open>urlsplit\<close> finds before the first colon, lowercased, and what follows it\<close>
  "split_scheme url =
     (case str_find CHR '':'' url of
        None \<Rightarrow> ([], url)
      | Some i \<Rightarrow>
          if i > 0 \<and> hd url \<in> set (ascii_lowercase @ ascii_uppercase) \<and>
             list_all (\<lambda>c. c \<in> set scheme_chars) (take i url)
          then (str_lower (take i url), drop (i + 1) url)
          else ([], url))"

definition urlsplit ::
  "string \<Rightarrow> value_error + string \<times> string \<times> string \<times> string \<times> string" where
  \<comment> \<open>\<open>urlsplit(url)\<close>. \<open>_checknetloc\<close> only raises when the NFKC form of a non-ASCII netloc
      holds one of \<open>/?#@:\<close>, which no code point below 256 brings about.\<close>
  "urlsplit url0 =
     (let url1 = str_lstrip WHATWG_C0_CONTROL_OR_SPACE url0;
          url2 = fold str_remove UNSAFE_URL_BYTES_TO_REMOVE url1;
          (sch, url3) = split_scheme url2;
          (nl, url4) = (if take 2 url3 = ''//'' then splitnetloc url3 2 else ([], url3))
      in case check_brackets nl of
           Some e \<Rightarrow> Inl e
         | None \<Rightarrow>
             let (url5, frag) =
                   (if CHR ''#'' \<in> set url4
                    then (case str_partition CHR ''#'' url4 of (a, _, b) \<Rightarrow> (a, b))
                    else (url4, []));
                 (url6, qry) =
                   (if CHR ''?'' \<in> set url5
                    then (case str_partition CHR ''?'' url5 of (a, _, b) \<Rightarrow> (a, b))
                    else (url5, []))
             in Inr (sch, nl, url6, qry, frag))"

definition urlparse :: "string \<Rightarrow> value_error + parse_result" where
  "urlparse url =
     (case urlsplit url of
        Inl e \<Rightarrow> Inl e
      | Inr (sch, nl, url, qry, frag) \<Rightarrow>
          let (url, prm) =
                (if sch \<in> set uses_params \<and> CHR '';'' \<in> set url
                 then splitparams url else (url, []))
          in Inr \<lparr>scheme = sch, netloc = nl, path = url, params = prm,
                  query = qry, fragment = frag\<rparr>)"

definition urlunsplit :: "string \<times> string \<times> string \<times> string \<times> string \<Rightarrow> string" where
  "urlunsplit components =
     (case components of
        (sch, nl, url, qry, frag) \<Rightarrow>
          let url = (if nl \<noteq> [] \<or>
                        (sch \<noteq> [] \<and> sch \<in> set uses_netloc \<and> take 2 url \<noteq> ''//'')
                     then ''//'' @ nl @
                          (if url \<noteq> [] \<and> take 1 url \<noteq> ''/'' then ''/'' @ url else url)
                     else url);
              url = (if sch \<noteq> [] then sch @ '':'' @ url else url);
              url = (if qry \<noteq> [] then url @ ''?'' @ qry else url);
              url = (if frag \<noteq> [] then url @ ''#'' @ frag else url)
          in url)"

definition urlunparse :: "parse_result \<Rightarrow> string" where
  "urlunparse r =
     (let url = (if params r \<noteq> [] then path r @ '';'' @ params r else path r)
      in urlunsplit (scheme r, netloc r, url, query r, fragment r))"

section \<open>The IDNA codec\<close>

text \<open>
  \<open>validate_url\<close> calls \<open>idna.encode(hostname, uts46=True).decode('ascii')\<close> of the
  third-party package \<open>idna\<close>. What that call answers on a non-ASCII label, or on a label
  that starts with \<open>xn--\<close>, depends on the Unicode tables of the package, so the call is a
  parameter of the model: a function from the host name to the converted name or to the
  exception raised (\<open>idna.IDNAError\<close>, or any other one).
\<close>

datatype idna_exception = IDNAError | Other_exception

type_synonym idna_codec = "string \<Rightarrow> idna_exception + string"

definition ldh_chars :: string where
  \<comment> \<open>the ASCII code points of class PVALID in \<open>idna/idnadata.py\<close>\<close>
  "ldh_chars = ascii_lowercase @ digits @ ''-''"

definition idna_spec :: "idna_codec \<Rightarrow> bool" where
  \<comment> \<open>what the proofs below use of the package, read off \<open>idna/core.py\<close>: a converted name
      is not empty and made of lowercase letters, digits, hyphens and dots; converting it
      again gives it back; an ASCII character of an accepted name is a letter, a digit, a
      hyphen or a dot; and an accepted all-ASCII name is only lowercased\<close>
  "idna_spec enc =
     (\<forall>h p. enc h = Inr p \<longrightarrow>
        p \<noteq> [] \<and>
        set p \<subseteq> set (ldh_chars @ ''.'') \<and>
        enc p = Inr p \<and>
        (\<forall>c \<in> set h. of_char c < (128 :: nat) \<longrightarrow>
           c \<in> set (ascii_uppercase @ ldh_chars @ ''.'')) \<and>
        (list_all (\<lambda>c. of_char c < (128 :: nat)) h \<longrightarrow> p = str_lower h))"

definition ldh_label_ok :: "string \<Rightarrow> bool" where
  \<comment> \<open>\<open>check_label\<close> and \<open>valid_label_length\<close> on an ASCII label\<close>
  "ldh_label_ok label =
     (label \<noteq> [] \<and>
      take 2 (drop 2 label) \<noteq> ''--'' \<and>
      hd label \<noteq> CHR ''-'' \<and> last label \<noteq> CHR ''-'' \<and>
      list_all (\<lambda>c. c \<in> set ldh_chars) label \<and>
      length label \<le> 63)"

definition idna_encode_ldh :: idna_codec where
  \<comment> \<open>the codec on the names whose labels are ASCII letters, digits and hyphens, where
      it needs no table: \<open>uts46_remap\<close> lowercases the name, \<open>encode\<close> splits it at the
      dots, drops one trailing empty label, checks each label and the whole length, and
      joins the labels again. A label with \<open>--\<close> in third and fourth position is refused
      by \<open>check_hyphen_ok\<close>, unless it starts with \<open>xn--\<close>; such a label and a non-ASCII
      name are outside this instance, which refuses them too.\<close>
  "idna_encode_ldh h =
     (let s = str_lower h;
          labels = str_split CHR ''.'' s;
          trailing_dot = (last labels = []);
          labels = (if trailing_dot then butlast labels else labels)
      in if str_split CHR ''.'' s \<noteq> [[]] \<and> list_all ldh_label_ok labels \<and>
            length s \<le> (if trailing_dot then 254 else 253)
         then Inr s else Inl IDNAError)"

definition buecher_de :: string where
  "buecher_de = ''b'' @ [CHR 0xFC] @ ''cher.de''"

definition idna_encode_docstring :: idna_codec where
  \<comment> \<open>\<^const>\<open>idna_encode_ldh\<close> and the conversion the docstring of \<open>validate_url\<close> quotes:
      the name \<^const>\<open>buecher_de\<close> (with U+00FC) becomes \<open>xn--bcher-kva.de\<close>, which the
      codec gives back as it is\<close>
  "idna_encode_docstring h =
     (if h = buecher_de \<or> h = ''xn--bcher-kva.de'' then Inr ''xn--bcher-kva.de''
      else idna_encode_ldh h)"

section \<open>url\_validator.py\<close>

datatype invalid_url =
    URL_empty
  | URL_too_long
  | URL_malformed
  | Invalid_scheme string
  | Missing_hostname
  | Invalid_IDN
  | Hostname_error
  | Private_IP string
  | Normalized_empty

text \<open>
  The constructors of \<^typ>\<open>invalid_url\<close> are the messages of the \<open>InvalidURLError\<close>s that
  \<open>validate_url\<close> raises, in the order of the source: "URL cannot be empty and must be
  a string.", "URL exceeds maximum allowed length ...", "URL is malformed or missing a
  valid scheme and domain/IP.", "Invalid URL scheme ...", "URL is missing a hostname ...",
  "Invalid Internationalized Domain Name (IDN): ...", "Error processing hostname: ...",
  "URL points to a private or loopback IP address ...", "Normalized URL is empty or invalid
  after processing."

  \<open>InvalidURLError\<close> is a subclass of \<open>ValueError\<close>; a \<open>ValueError\<close> that \<open>urlparse\<close>
  raises is no \<open>InvalidURLError\<close>, and \<open>validate_url\<close> does not catch it.
\<close>

datatype error = InvalidURLError invalid_url | ValueError value_error

definition MAX_URL_LENGTH :: nat where
  "MAX_URL_LENGTH = 2048"

definition ALLOWED_SCHEMES :: "string set" where
  "ALLOWED_SCHEMES = {''http'', ''https''}"

definition is_private_ip :: "string \<Rightarrow> bool" where
  \<comment> \<open>\<open>URLValidator._is_private_ip\<close>\<close>
  "is_private_ip ip_address_str =
     (case ip_address ip_address_str of
        Some ip_obj \<Rightarrow> is_private ip_obj \<or> is_loopback ip_obj
      | None \<Rightarrow> False)"

definition parse_with_default_scheme :: "string \<Rightarrow> value_error + parse_result" where
  \<comment> \<open>lines 91-103 of \<open>validate_url\<close>: parse, and parse once more behind \<open>http://\<close> when
      there is no scheme and a dot in the netloc, or no scheme, no netloc and a dot in the
      path\<close>
  "parse_with_default_scheme url =
     (case urlparse url of
        Inl e \<Rightarrow> Inl e
      | Inr parsed_url \<Rightarrow>
          if scheme parsed_url = [] \<and> netloc parsed_url \<noteq> [] \<and>
             CHR ''.'' \<in> set (netloc parsed_url)
          then urlparse (''http://'' @ url)
          else if scheme parsed_url = [] \<and> netloc parsed_url = [] \<and> path parsed_url \<noteq> []
          then (if CHR ''.'' \<in> set (path parsed_url)
                then urlparse (''http://'' @ path parsed_url)
                else Inr parsed_url)
          else Inr parsed_url)"

definition convert_hostname ::
  "idna_codec \<Rightarrow> parse_result \<Rightarrow> string \<Rightarrow> invalid_url + parse_result" where
  \<comment> \<open>lines 121-137 of \<open>validate_url\<close>, the \<open>try\<close> block: the netloc is replaced when the
      converted name differs from the host name; a port of 0 is falsy; the ValueError of
      the \<open>port\<close> property is caught by \<open>except Exception\<close>\<close>
  "convert_hostname idna_encode parsed_url h =
     (case idna_encode h of
        Inl IDNAError \<Rightarrow> Inl Invalid_IDN
      | Inl Other_exception \<Rightarrow> Inl Hostname_error
      | Inr punycode_hostname \<Rightarrow>
          if punycode_hostname \<noteq> h
          then (case port parsed_url of
                  Inl e \<Rightarrow> Inl Hostname_error
                | Inr None \<Rightarrow> Inr (parsed_url\<lparr>netloc := punycode_hostname\<rparr>)
                | Inr (Some p) \<Rightarrow>
                    if p = 0 then Inr (parsed_url\<lparr>netloc := punycode_hostname\<rparr>)
                    else Inr (parsed_url\<lparr>netloc :=
                                punycode_hostname @ '':'' @ str_of_nat 10 p\<rparr>))
          else Inr parsed_url)"

definition validate_url :: "idna_codec \<Rightarrow> string \<Rightarrow> error + string" where
  \<comment> \<open>\<open>URLValidator.validate_url\<close>; \<open>_is_private_ip(None)\<close> is False\<close>
  "validate_url idna_encode url =
     (if url = [] then Inl (InvalidURLError URL_empty)
      else if length url > MAX_URL_LENGTH then Inl (InvalidURLError URL_too_long)
      else case parse_with_default_scheme url of
        Inl e \<Rightarrow> Inl (ValueError e)
      | Inr parsed_url \<Rightarrow>
          if scheme parsed_url = [] \<or> netloc parsed_url = []
          then Inl (InvalidURLError URL_malformed)
          else if str_lower (scheme parsed_url) \<notin> ALLOWED_SCHEMES
          then Inl (InvalidURLError (Invalid_scheme (scheme parsed_url)))
          else case hostname parsed_url of
            None \<Rightarrow> Inl (InvalidURLError Missing_hostname)
          | Some h \<Rightarrow>
              (case convert_hostname idna_encode parsed_url h of
                 Inl reason \<Rightarrow> Inl (InvalidURLError reason)
               | Inr parsed_url \<Rightarrow>
                   (case hostname parsed_url of
                      Some h' \<Rightarrow>
                        if is_private_ip h' then Inl (InvalidURLError (Private_IP h'))
                        else let normalized_url =
                                   urlunparse (parsed_url\<lparr>scheme :=
                                     str_lower (scheme parsed_url)\<rparr>)
                             in if normalized_url = []
                                then Inl (InvalidURLError Normalized_empty)
                                else Inr normalized_url
                    | None \<Rightarrow>
                        let normalized_url =
                              urlunparse (parsed_url\<lparr>scheme :=
                                str_lower (scheme parsed_url)\<rparr>)
                        in if normalized_url = []
                           then Inl (InvalidURLError Normalized_empty)
                           else Inr normalized_url)))"

section \<open>Regular expressions\<close>

text \<open>
  The patterns of \<open>qr_generator.py\<close> use literals, character sets, \<open>\d\<close>, \<open>\S\<close>,
  alternation and counted repetition, and no backreference or lookaround, so that
  \<open>re.match\<close> finds a match exactly when the text is in the language of the pattern.
  Membership is decided by derivatives. All matching is under \<open>re.IGNORECASE\<close>.
\<close>

datatype atom =
    Chars string    \<comment> \<open>a literal character or a set \<open>[...]\<close>, given by its members\<close>
  | Digit           \<comment> \<open>\<open>\d\<close>\<close>
  | NonSpace        \<comment> \<open>\<open>\S\<close>\<close>

datatype regex =
    Zero                              \<comment> \<open>matches nothing\<close>
  | Eps                               \<comment> \<open>the empty pattern\<close>
  | Atom atom
  | Seq regex regex
  | Alt regex regex                   \<comment> \<open>\<open>r|s\<close>\<close>
  | Rep regex nat "nat option"        \<comment> \<open>\<open>r{m,n}\<close>, and \<open>r{m,}\<close> with \<open>None\<close>\<close>

definition whitespace :: string where
  \<comment> \<open>the code points below 256 that \<open>\s\<close> matches\<close>
  "whitespace =
     [CHR 0x09, CHR 0x0A, CHR 0x0B, CHR 0x0C, CHR 0x0D, CHR 0x1C, CHR 0x1D, CHR 0x1E,
      CHR 0x1F, CHR 0x20, CHR 0x85, CHR 0xA0]"

fun atom_match :: "atom \<Rightarrow> char \<Rightarrow> bool" where
  \<comment> \<open>one character against one atom, ignoring case; \<open>0\<close>-\<open>9\<close> are the decimal digits
      below 256\<close>
  "atom_match (Chars cs) c = (char_lower c \<in> set (map char_lower cs))"
| "atom_match Digit c = (c \<in> set digits)"
| "atom_match NonSpace c = (c \<notin> set whitespace)"

fun nullable :: "regex \<Rightarrow> bool" where
  "nullable Zero = False"
| "nullable Eps = True"
| "nullable (Atom a) = False"
| "nullable (Seq r s) = (nullable r \<and> nullable s)"
| "nullable (Alt r s) = (nullable r \<or> nullable s)"
| "nullable (Rep r m None) = (m = 0 \<or> nullable r)"
| "nullable (Rep r m (Some n)) = (m \<le> n \<and> (m = 0 \<or> nullable r))"

fun seq :: "regex \<Rightarrow> regex \<Rightarrow> regex" where
  "seq Zero s = Zero"
| "seq r s = Seq r s"

fun alt :: "regex \<Rightarrow> regex \<Rightarrow> regex" where
  "alt Zero s = s"
| "alt r Zero = r"
| "alt r s = Alt r s"

fun deriv :: "char \<Rightarrow> regex \<Rightarrow> regex" where
  \<comment> \<open>what is left to match after the character \<open>c\<close>\<close>
  "deriv c Zero = Zero"
| "deriv c Eps = Zero"
| "deriv c (Atom a) = (if atom_match a c then Eps else Zero)"
| "deriv c (Seq r s) =
     (if nullable r then alt (seq (deriv c r) s) (deriv c s) else seq (deriv c r) s)"
| "deriv c (Alt r s) = alt (deriv c r) (deriv c s)"
| "deriv c (Rep r m None) = seq (deriv c r) (Rep r (m - 1) None)"
| "deriv c (Rep r m (Some n)) =
     (if n = 0 \<or> n < m then Zero else seq (deriv c r) (Rep r (m - 1) (Some (n - 1))))"

definition fullmatch :: "regex \<Rightarrow> string \<Rightarrow> bool" where
  "fullmatch r s = nullable (foldl (\<lambda>r c. deriv c r) r s)"

definition match_to_end :: "regex \<Rightarrow> string \<Rightarrow> bool" where
  \<comment> \<open>\<open>re.match\<close> of a pattern that ends in \<open>$\<close>, which matches at the end of the text
      and just before a line feed that ends the text\<close>
  "match_to_end r s =
     (fullmatch r s \<or> (s \<noteq> [] \<and> last s = CHR 0x0A \<and> fullmatch r (butlast s)))"

definition Chr :: "char \<Rightarrow> regex" where
  "Chr c = Atom (Chars [c])"

definition Str :: "string \<Rightarrow> regex" where
  "Str s = foldr (\<lambda>c r. Seq (Chr c) r) s Eps"

definition Seqs :: "regex list \<Rightarrow> regex" where
  "Seqs rs = foldr Seq rs Eps"

definition Opt :: "regex \<Rightarrow> regex" where
  \<comment> \<open>\<open>r?\<close>\<close>
  "Opt r = Rep r 0 (Some 1)"

definition Plus :: "regex \<Rightarrow> regex" where
  \<comment> \<open>\<open>r+\<close>\<close>
  "Plus r = Rep r 1 None"

section \<open>qr\_generator.py\<close>

definition SUPPORTED_QR_FORMATS :: "string list" where
  "SUPPORTED_QR_FORMATS = [''PNG'', ''SVG'']"

definition A_Z :: regex where
  \<comment> \<open>\<open>[A-Z]\<close>\<close>
  "A_Z = Atom (Chars ascii_uppercase)"

definition A_Z0_9 :: regex where
  \<comment> \<open>\<open>[A-Z0-9]\<close>\<close>
  "A_Z0_9 = Atom (Chars (ascii_uppercase @ digits))"

definition A_Z0_9_hyphen :: regex where
  \<comment> \<open>\<open>[A-Z0-9-]\<close>\<close>
  "A_Z0_9_hyphen = Atom (Chars (ascii_uppercase @ digits @ ''-''))"

definition url_regex :: regex where
  \<comment> \<open>the pattern of \<open>_validate_url\<close>, between \<open>^\<close> and \<open>$\<close>, line by line\<close>
  "url_regex =
     Seqs
      [Alt (Str ''http'') (Str ''ftp''), Opt (Chr CHR ''s''), Str ''://'',
       Alt (Seqs
             [Plus (Seqs [A_Z0_9, Opt (Seqs [Rep A_Z0_9_hyphen 0 (Some 61), A_Z0_9]),
                          Chr CHR ''.'']),
              Alt (Seqs [Rep A_Z 2 (Some 6), Opt (Chr CHR ''.'')])
                  (Seqs [Rep A_Z0_9_hyphen 2 None, Opt (Chr CHR ''.'')])])
        (Alt (Str ''localhost'')
             (Seqs [Rep (Atom Digit) 1 (Some 3), Chr CHR ''.'',
                    Rep (Atom Digit) 1 (Some 3), Chr CHR ''.'',
                    Rep (Atom Digit) 1 (Some 3), Chr CHR ''.'',
                    Rep (Atom Digit) 1 (Some 3)])),
       Opt (Seqs [Chr CHR '':'', Plus (Atom Digit)]),
       Alt (Opt (Chr CHR ''/'')) (Seqs [Atom (Chars ''/?''), Plus (Atom NonSpace)])]"

definition qr_validate_url :: "string \<Rightarrow> bool" where
  \<comment> \<open>\<open>QRGeneratorService._validate_url\<close>\<close>
  "qr_validate_url url = match_to_end url_regex url"

datatype qr_message =
    Invalid_URL_provided string
  | Unsupported_format string
  | Failed_to_generate string string

text \<open>
  \<open>generate_qr_code\<close> raises one exception class, \<open>QRGenerationError\<close>, with one of three
  messages: "Invalid URL provided: '{url}'. Please ensure it's a valid HTTP/HTTPS URL.",
  "Unsupported QR code format: '{format}'. Supported formats are PNG, SVG." (the argument
  of \<^const>\<open>Unsupported_format\<close> is the format as it was passed; the message shows it in
  upper case), and "Failed to generate QR code for URL '{url}': {e}".
\<close>

datatype qr_error = QRGenerationError qr_message

datatype qr_result =
    Path string       \<comment> \<open>a \<open>str\<close>: the absolute path of the file written\<close>
  | Bytes string      \<comment> \<open>\<open>bytes\<close>: the image data\<close>
  | No_result         \<comment> \<open>\<open>None\<close>, where the function body ends without a \<open>return\<close>\<close>

text \<open>
  The \<open>qrcode\<close> package and the operating system are parameters of the model. Each
  operation answers with its result or with the text of the exception it raised, and the
  ones that write return the file system they leave behind:
  \<^item> \<open>make_image factory url box_size border fill_color back_color\<close> stands for
    \<open>qrcode.QRCode(...)\<close>, \<open>add_data\<close>, \<open>make(fit=True)\<close> and \<open>make_image\<close> with the image
    factory of the format;
  \<^item> \<open>save_to_path img path kind\<close> for \<open>img.save(output_path, kind)\<close>;
  \<^item> \<open>save_to_bytes img kind\<close> for \<open>img.save(byte_arr, format=kind)\<close> and
    \<open>byte_arr.getvalue()\<close>;
  \<^item> \<open>makedirs\<close>, \<open>dirname\<close> and \<open>abspath\<close> for \<open>os.makedirs(..., exist_ok=True)\<close>,
    \<open>os.path.dirname\<close> and \<open>os.path.abspath\<close>.
\<close>

record ('img, 'fs) qr_env =
  make_image :: "string \<Rightarrow> string \<Rightarrow> int \<Rightarrow> int \<Rightarrow> string \<Rightarrow> string \<Rightarrow> string + 'img"
  save_to_path :: "'img \<Rightarrow> string \<Rightarrow> string \<Rightarrow> 'fs \<Rightarrow> string option \<times> 'fs"
  save_to_bytes :: "'img \<Rightarrow> string \<Rightarrow> string + string"
  makedirs :: "string \<Rightarrow> 'fs \<Rightarrow> string option \<times> 'fs"
  dirname :: "string \<Rightarrow> string"
  abspath :: "'fs \<Rightarrow> string \<Rightarrow> string + string"

definition deliver ::
  "('img, 'fs) qr_env \<Rightarrow> string \<Rightarrow> string \<Rightarrow> 'img \<Rightarrow> string option \<Rightarrow> 'fs \<Rightarrow>
   (qr_error + qr_result) \<times> 'fs" where
  \<comment> \<open>the body of either format branch after \<open>make_image\<close>: \<open>if output_path:\<close> is false for
      \<open>None\<close> and for the empty string\<close>
  "deliver env url kind img output_path fs =
     (case output_path of
        Some p \<Rightarrow>
          if p \<noteq> []
          then (case makedirs env (if dirname env p = [] then ''.'' else dirname env p) fs of
                  (Some e, fs1) \<Rightarrow> (Inl (QRGenerationError (Failed_to_generate url e)), fs1)
                | (None, fs1) \<Rightarrow>
                    (case save_to_path env img p kind fs1 of
                       (Some e, fs2) \<Rightarrow>
                         (Inl (QRGenerationError (Failed_to_generate url e)), fs2)
                     | (None, fs2) \<Rightarrow>
                         (case abspath env fs2 p of
                            Inl e \<Rightarrow> (Inl (QRGenerationError (Failed_to_generate url e)), fs2)
                          | Inr a \<Rightarrow> (Inr (Path a), fs2))))
          else (case save_to_bytes env img kind of
                  Inl e \<Rightarrow> (Inl (QRGenerationError (Failed_to_generate url e)), fs)
                | Inr b \<Rightarrow> (Inr (Bytes b), fs))
      | None \<Rightarrow>
          (case save_to_bytes env img kind of
             Inl e \<Rightarrow> (Inl (QRGenerationError (Failed_to_generate url e)), fs)
           | Inr b \<Rightarrow> (Inr (Bytes b), fs)))"

definition generate_qr_code ::
  "('img, 'fs) qr_env \<Rightarrow> string \<Rightarrow> string \<Rightarrow> int \<Rightarrow> int \<Rightarrow> string \<Rightarrow> string \<Rightarrow>
   string option \<Rightarrow> 'fs \<Rightarrow> (qr_error + qr_result) \<times> 'fs" where
  \<comment> \<open>\<open>QRGeneratorService.generate_qr_code\<close>, on the file system \<open>fs\<close>\<close>
  "generate_qr_code env url format box_size border fill_color back_color output_path fs =
     (if \<not> qr_validate_url url
      then (Inl (QRGenerationError (Invalid_URL_provided url)), fs)
      else if str_upper format \<notin> set SUPPORTED_QR_FORMATS
      then (Inl (QRGenerationError (Unsupported_format format)), fs)
      else if str_upper format = ''PNG''
      then (case make_image env ''PNG'' url box_size border fill_color back_color of
              Inl e \<Rightarrow> (Inl (QRGenerationError (Failed_to_generate url e)), fs)
            | Inr img \<Rightarrow> deliver env url ''PNG'' img output_path fs)
      else if str_upper format = ''SVG''
      then (case make_image env ''SVG'' url box_size border fill_color back_color of
              Inl e \<Rightarrow> (Inl (QRGenerationError (Failed_to_generate url e)), fs)
            | Inr img \<Rightarrow> deliver env url ''SVG'' img output_path fs)
      else (Inr No_result, fs))"

section \<open>An environment for the examples\<close>

text \<open>
  The concrete instances of the theorems below need a \<open>qrcode\<close> package and a file system.
  \<open>plain_env\<close> is the simplest one: nothing fails, an image is the text of what was asked
  for, a file system is the list of the directories made and of the files written, and
  the working directory is \<open>/srv\<close>.
\<close>

record plain_fs =
  dirs :: "string list"
  files :: "(string \<times> string) list"

definition posix_dirname :: "string \<Rightarrow> string" where
  \<comment> \<open>\<open>posixpath.dirname\<close>\<close>
  "posix_dirname p =
     (let head = rev (dropWhile (\<lambda>c. c \<noteq> CHR ''/'') (rev p))
      in if head \<noteq> [] \<and> \<not> list_all (\<lambda>c. c = CHR ''/'') head
         then rev (dropWhile (\<lambda>c. c = CHR ''/'') (rev head)) else head)"

definition plain_env :: "(string, plain_fs) qr_env" where
  "plain_env =
     \<lparr>make_image = (\<lambda>factory url box_size border fill_color back_color.
         Inr (factory @ '' image of '' @ url)),
      save_to_path = (\<lambda>img p kind fs. (None, fs\<lparr>files := (p, img) # files fs\<rparr>)),
      save_to_bytes = (\<lambda>img kind. Inr img),
      makedirs = (\<lambda>d fs. (None, fs\<lparr>dirs := d # dirs fs\<rparr>)),
      dirname = posix_dirname,
      abspath = (\<lambda>fs p. Inr (if take 1 p = ''/'' then p else ''/srv/'' @ p))\<rparr>"

definition empty_fs :: plain_fs where
  "empty_fs = \<lparr>dirs = [], files = []\<rparr>"

definition long_path_url :: string where
  \<comment> \<open>a URL without a scheme, 2048 characters long\<close>
  "long_path_url = ''a.b/'' @ replicate 2044 CHR ''x''"

section \<open>Evaluation\<close>

text \<open>The definitions that the concrete instances unfold.\<close>

lemmas str_eval =
  str_find_def str_partition_def str_rpartition_def str_lstrip_def str_remove_def
  digits_def ascii_uppercase_def ascii_lowercase_def latin1_uppercase_def
  latin1_lowercase_def char_lower_def str_lower_def char_upper_def str_upper_def
  is_ascii_digits_def digit_val_def int_of_str_def digit_char_def str_of_nat_def Let_def

lemmas ip_eval =
  parse_octet_def ipv4_int_from_string_def ipv4_address_def hex_digits_def
  parse_hextet_def ipv6_hextets_def ipv6_int_from_string_def ipv6_address_def
  ip_address_def in_network_def IPv4Network_def IPv6Network_def
  ipv4_private_networks_def ipv4_private_networks_exceptions_def
  ipv6_private_networks_def ipv6_private_networks_exceptions_def ipv4_is_private_def

lemmas url_eval =
  uses_netloc_def uses_params_def scheme_chars_def WHATWG_C0_CONTROL_OR_SPACE_def
  UNSAFE_URL_BYTES_TO_REMOVE_def hostinfo_def hostname_def port_def str_rfind_def
  splitparams_def splitnetloc_def ipvfuture_match_def check_bracketed_host_def
  check_bracketed_netloc_def check_brackets_def split_scheme_def urlsplit_def
  urlparse_def urlunsplit_def urlunparse_def

lemmas validator_eval =
  ldh_chars_def ldh_label_ok_def idna_encode_ldh_def buecher_de_def
  idna_encode_docstring_def MAX_URL_LENGTH_def ALLOWED_SCHEMES_def is_private_ip_def
  parse_with_default_scheme_def convert_hostname_def validate_url_def

lemmas py_eval = str_eval ip_eval url_eval validator_eval

section \<open>Facts about the steps of \<open>validate_url\<close> and \<open>generate_qr_code\<close>\<close>

lemma convert_hostname_reason:
  "convert_hostname enc pr h = Inl e \<Longrightarrow> e = Invalid_IDN \<or> e = Hostname_error"
  unfolding convert_hostname_def
  by (auto split: sum.splits option.splits if_splits idna_exception.splits)

lemma pattern_rejects_bare_domain: "\<not> qr_validate_url ''example.com''"
  by code_simp

lemma pattern_rejects_plain_text: "\<not> qr_validate_url ''this-is-not-a-valid-url''"
  by code_simp

lemma pattern_accepts_https_domain: "qr_validate_url ''https://example.com''"
  by code_simp

lemma pattern_accepts_ftp: "qr_validate_url ''ftp://example.com''"
  by code_simp

lemma upper_supported:
  "str_upper fmt \<in> set SUPPORTED_QR_FORMATS \<Longrightarrow>
   str_upper fmt = ''PNG'' \<or> str_upper fmt = ''SVG''"
  by (simp add: SUPPORTED_QR_FORMATS_def)

lemma deliver_success:
  assumes "deliver env url kind img outp fs = (Inr r, fs')"
  shows "(\<forall>p. outp = Some p \<and> p \<noteq> [] \<longrightarrow>
            (\<exists>fs1 a. makedirs env (if dirname env p = [] then ''.'' else dirname env p) fs
                        = (None, fs1) \<and>
                     save_to_path env img p kind fs1 = (None, fs') \<and>
                     abspath env fs' p = Inr a \<and> r = Path a)) \<and>
         (outp = None \<or> outp = Some [] \<longrightarrow>
            (\<exists>b. save_to_bytes env img kind = Inr b \<and> r = Bytes b \<and> fs' = fs))"
  using assms unfolding deliver_def
  by (auto split: option.splits sum.splits prod.splits if_splits)

lemma example_png_to_file:
  "generate_qr_code plain_env ''https://example.com'' ''png'' 10 4 ''black'' ''white''
     (Some ''out/qr.png'') empty_fs
   = (Inr (Path ''/srv/out/qr.png''),
      \<lparr>dirs = [''out''], files = [(''out/qr.png'', ''PNG image of https://example.com'')]\<rparr>)"
  using pattern_accepts_https_domain
  by (simp add: generate_qr_code_def deliver_def plain_env_def empty_fs_def posix_dirname_def
        SUPPORTED_QR_FORMATS_def str_eval)


section \<open>The claims\<close>

subsection \<open>C1: the URL check of the encoder\<close>

text \<open>
  C1 says that \<open>generate_qr_code\<close> accepts a URL exactly when \<open>validate_url\<close> does, with
  the same rules, among them that the scheme is http or https. The encoder does not call
  \<open>validate_url\<close>: it matches the URL against the pattern of \<open>_validate_url\<close>, which starts
  with \<open>(?:http|ftp)s?://\<close> under the comment "http:// or https://". On
  \<open>ftp://example.com\<close> the validator raises "Invalid URL scheme 'ftp'", whatever the IDNA
  codec, while the pattern matches and the encoder returns the image of the ftp URL.
\<close>

theorem C1_encoder_encodes_ftp:
  "validate_url enc ''ftp://example.com'' = Inl (InvalidURLError (Invalid_scheme ''ftp'')) \<and>
   qr_validate_url ''ftp://example.com'' \<and>
   generate_qr_code plain_env ''ftp://example.com'' ''PNG'' 10 4 ''black'' ''white'' None
     empty_fs
   = (Inr (Bytes ''PNG image of ftp://example.com''), empty_fs)"
proof -
  have "validate_url enc ''ftp://example.com'' = Inl (InvalidURLError (Invalid_scheme ''ftp''))"
    by (simp add: py_eval)
  moreover have "generate_qr_code plain_env ''ftp://example.com'' ''PNG'' 10 4 ''black''
      ''white'' None empty_fs
    = (Inr (Bytes ''PNG image of ftp://example.com''), empty_fs)"
    using pattern_accepts_ftp
    by (simp add: generate_qr_code_def deliver_def plain_env_def SUPPORTED_QR_FORMATS_def
          str_eval)
  ultimately show ?thesis using pattern_accepts_ftp by simp
qed

text \<open>
  The two checks differ in the other direction too, there by the design of the pattern,
  which asks for a scheme: \<open>validate_url\<close> accepts \<open>example.com\<close> and answers
  \<open>http://example.com\<close>, and the encoder refuses it.
\<close>

lemma encoder_refuses_bare_domain:
  "validate_url idna_encode_ldh ''example.com'' = Inr ''http://example.com'' \<and>
   fst (generate_qr_code env ''example.com'' fmt box_size border fill_color back_color outp fs)
   = Inl (QRGenerationError (Invalid_URL_provided ''example.com''))"
proof -
  have "validate_url idna_encode_ldh ''example.com'' = Inr ''http://example.com''"
    by (simp add: py_eval)
  with pattern_rejects_bare_domain show ?thesis by (simp add: generate_qr_code_def)
qed


subsection \<open>C3: the format \<open>JPG\<close>\<close>

text \<open>
  C3 says that a call with the format \<open>JPG\<close> raises the unsupported-format error whatever
  the URL. The URL is checked before the format: with a URL that the pattern refuses, the
  error is "Invalid URL provided".
\<close>

theorem C3_counterexample:
  "fst (generate_qr_code plain_env ''this-is-not-a-valid-url'' ''JPG'' 10 4 ''black''
         ''white'' None empty_fs)
   = Inl (QRGenerationError (Invalid_URL_provided ''this-is-not-a-valid-url''))"
  using pattern_rejects_plain_text by (simp add: generate_qr_code_def)

text \<open>
  C3, as the code has it: a call with the format \<open>JPG\<close> always raises
  \<open>QRGenerationError\<close> and leaves the file system as it was; the message is "Unsupported
  QR code format" when the pattern accepts the URL, and "Invalid URL provided" when it
  does not.
\<close>

theorem C3_jpg_is_refused:
  "generate_qr_code env url ''JPG'' box_size border fill_color back_color outp fs =
     (Inl (QRGenerationError
            (if qr_validate_url url then Unsupported_format ''JPG''
             else Invalid_URL_provided url)), fs)"
  by (simp add: generate_qr_code_def SUPPORTED_QR_FORMATS_def str_eval)

theorem C3_jpg_is_refused_witness:
  "generate_qr_code plain_env ''https://example.com'' ''JPG'' 10 4 ''black'' ''white'' None
     empty_fs
   = (Inl (QRGenerationError (Unsupported_format ''JPG'')), empty_fs)"
  using C3_jpg_is_refused [of plain_env "''https://example.com''" 10 4 "''black''"
          "''white''" None empty_fs]
        pattern_accepts_https_domain
  by simp


subsection \<open>C4: schemes other than http and https\<close>

text \<open>
  C4 says that an input with a scheme other than http and https makes \<open>validate_url\<close>
  raise \<open>InvalidURLError\<close>. On \<open>ftp://[\<close> the call of \<open>urlparse\<close> raises the plain
  \<open>ValueError\<close> "Invalid IPv6 URL", which \<open>validate_url\<close> does not catch, whatever the
  IDNA codec.
\<close>

theorem C4_unclosed_bracket:
  "validate_url enc ''ftp://['' = Inl (ValueError Invalid_IPv6_URL)"
  by (simp add: py_eval)


subsection \<open>C5: the length limit\<close>

text \<open>
  C5: \<open>validate_url\<close> raises the error "URL exceeds maximum allowed length" exactly when
  the input, as it was passed, has more than 2048 characters: 2049 characters or more are
  refused with that error, and an input of 2048 characters or fewer never is, whatever
  becomes of it afterwards.
\<close>

theorem C5_length_limit:
  "(validate_url enc url = Inl (InvalidURLError URL_too_long)) = (2048 < length url)"
proof (cases "2048 < length url")
  case True
  then show ?thesis by (auto simp: validate_url_def MAX_URL_LENGTH_def)
next
  case False
  have "validate_url enc url \<noteq> Inl (InvalidURLError URL_too_long)"
    using False convert_hostname_reason [of enc]
    unfolding validate_url_def MAX_URL_LENGTH_def Let_def
    by (auto split: sum.splits option.splits if_splits)
  with False show ?thesis by simp
qed

theorem C5_length_limit_witness:
  "validate_url idna_encode_ldh (replicate 2049 CHR ''a'') =
     Inl (InvalidURLError URL_too_long)"
  using C5_length_limit [of idna_encode_ldh "replicate 2049 CHR ''a''"] by simp


subsection \<open>C6: the input without a scheme\<close>

text \<open>
  C6 says that an input without a scheme that looks like a host gets the prefix
  \<open>http://\<close> and keeps its port, path, query and fragment. When \<open>urlparse\<close> puts the host
  in the path, \<open>validate_url\<close> builds the new URL from the path alone, so that the query and
  the fragment of \<open>example.com/path?q=1#frag\<close> are lost.
\<close>

theorem C6_query_and_fragment_lost:
  "validate_url idna_encode_ldh ''example.com/path?q=1#frag'' = Inr ''http://example.com/path''"
  by (simp add: py_eval)


subsection \<open>C9: what a successful call returns\<close>

text \<open>
  C9: a call of \<open>generate_qr_code\<close> that returns has made the image with the factory of
  the requested format (\<open>format.upper()\<close>), and returns one of two things. With an output
  path (the test is \<open>if output_path:\<close>, so a path is a non-empty string) it has made the
  directory of the path, or \<open>.\<close> when the path has none, has saved the image there in the
  requested format, and returns the absolute path, a \<open>str\<close>. Without one (\<open>None\<close>, or the
  empty string) it returns the bytes of the image saved in the requested format, and
  leaves the file system as it was. It never returns \<open>None\<close>.
\<close>

theorem C9_result_kind:
  assumes "generate_qr_code env url fmt box_size border fill_color back_color outp fs
             = (Inr r, fs')"
  shows "\<exists>img. make_image env (str_upper fmt) url box_size border fill_color back_color
                 = Inr img \<and>
           (\<forall>p. outp = Some p \<and> p \<noteq> [] \<longrightarrow>
              (\<exists>fs1 a. makedirs env (if dirname env p = [] then ''.'' else dirname env p) fs
                          = (None, fs1) \<and>
                       save_to_path env img p (str_upper fmt) fs1 = (None, fs') \<and>
                       abspath env fs' p = Inr a \<and> r = Path a)) \<and>
           (outp = None \<or> outp = Some [] \<longrightarrow>
              (\<exists>b. save_to_bytes env img (str_upper fmt) = Inr b \<and> r = Bytes b \<and>
                   fs' = fs))"
proof -
  from assms have ok: "qr_validate_url url" "str_upper fmt \<in> set SUPPORTED_QR_FORMATS"
    unfolding generate_qr_code_def by (auto split: if_splits)
  from ok(2) consider "str_upper fmt = ''PNG''" | "str_upper fmt = ''SVG''"
    using upper_supported by blast
  then obtain img where img:
    "make_image env (str_upper fmt) url box_size border fill_color back_color = Inr img"
    "deliver env url (str_upper fmt) img outp fs = (Inr r, fs')"
  proof cases
    case 1
    with assms ok that show ?thesis
      unfolding generate_qr_code_def by (auto split: sum.splits)
  next
    case 2
    with assms ok that show ?thesis
      unfolding generate_qr_code_def by (auto split: sum.splits)
  qed
  from deliver_success [OF img(2)] img(1) show ?thesis by blast
qed

theorem C9_result_kind_witness:
  "generate_qr_code plain_env ''https://example.com'' ''png'' 10 4 ''black'' ''white''
     (Some ''out/qr.png'') empty_fs
   = (Inr (Path ''/srv/out/qr.png''),
      \<lparr>dirs = [''out''], files = [(''out/qr.png'', ''PNG image of https://example.com'')]\<rparr>) \<and>
   (\<exists>img. make_image plain_env ''PNG'' ''https://example.com'' 10 4 ''black'' ''white''
             = Inr img \<and>
       (\<exists>fs1. makedirs plain_env ''out'' empty_fs = (None, fs1) \<and>
         save_to_path plain_env img ''out/qr.png'' ''PNG'' fs1 =
           (None, \<lparr>dirs = [''out''],
                   files = [(''out/qr.png'', ''PNG image of https://example.com'')]\<rparr>)) \<and>
       abspath plain_env
         \<lparr>dirs = [''out''], files = [(''out/qr.png'', ''PNG image of https://example.com'')]\<rparr>
         ''out/qr.png'' = Inr ''/srv/out/qr.png'')"
  using C9_result_kind [OF example_png_to_file] example_png_to_file
  by (simp add: plain_env_def posix_dirname_def str_eval)


end
